theory Spec2Isabelle
  imports Main "HOL-Library.Sublist"
begin

section \<open>Strings of the host language\<close>

text \<open>
  A JavaScript string is modelled as a \<^typ>\<open>string\<close>, one \<^typ>\<open>char\<close> per byte of
  the UTF-8 source text. \<open>String.prototype.toLowerCase\<close> is modelled on the ASCII
  letters \<open>A\<close> to \<open>Z\<close>; every other byte is left as it is (the keywords of the
  classifier are ASCII). \<open>String.prototype.includes\<close> is the contiguous
  substring test, searched from the left; the empty string is included in every string.
\<close>

definition lower_char :: "char \<Rightarrow> char" where
  "lower_char c =
     (case map_of (zip ''ABCDEFGHIJKLMNOPQRSTUVWXYZ'' ''abcdefghijklmnopqrstuvwxyz'') c of
        Some d \<Rightarrow> d
      | None \<Rightarrow> c)"

definition toLowerCase :: "string \<Rightarrow> string" where
  "toLowerCase s = map lower_char s"

fun includes_str :: "string \<Rightarrow> string \<Rightarrow> bool" where
  "includes_str [] t = (t = [])"
| "includes_str (c # s) t = (prefix t (c # s) \<or> includes_str s t)"

section \<open>The chatbot edge function\<close>

subsection \<open>generateFallbackResponse\<close>

definition temperature_response :: string where
  "temperature_response =
     ''For temperature measurements, ensure your sensors are calibrated and protected from direct sunlight. Normal soil temperatures range from 50-80''
     @ [CHR 0xC3, CHR 0x82, CHR 0xC2, CHR 0xB0]
     @ ''F depending on season and depth. Consider measuring at multiple depths for better insights.''"

definition humidity_response :: string where
  "humidity_response =
     ''Humidity levels are crucial for crop health. Ideal relative humidity varies by crop but generally ranges from 40-70%. High humidity can lead to fungal issues, while low humidity may stress plants. Monitor throughout the day as levels fluctuate.''"

definition soil_response :: string where
  "soil_response =
     ''Soil pH affects nutrient availability. Most crops prefer slightly acidic to neutral soil (pH 6.0-7.0). Test soil pH regularly and consider amendments like lime to raise pH or sulfur to lower it. Take samples from multiple locations for accuracy.''"

definition data_response :: string where
  "data_response =
     ''Consistent data collection is key to successful field management. Record measurements at the same time daily when possible, maintain detailed location notes, and look for patterns over time. Your data helps identify trends and optimize practices.''"

definition help_response :: string where
  "help_response =
     ''I'm here to help with your field data questions! I can provide insights on temperature, humidity, soil conditions, and data collection best practices. Feel free to ask about specific measurements or general field management guidance.''"

definition generic_response :: string where
  "generic_response =
     ''Thank you for your question! I can provide general guidance on field data practices. Please ensure consistent data collection timing, record detailed location information, and look for patterns in your data over time. For specific technical questions, consider consulting with agricultural extension services or field specialists.''"

definition generateFallbackResponse :: "string \<Rightarrow> string" where
  "generateFallbackResponse message =
     (let lowerMessage = toLowerCase message in
      if includes_str lowerMessage ''temperature'' then temperature_response
      else if includes_str lowerMessage ''humidity'' then humidity_response
      else if includes_str lowerMessage ''soil'' \<or> includes_str lowerMessage ''ph'' then soil_response
      else if includes_str lowerMessage ''data'' \<or> includes_str lowerMessage ''record'' then data_response
      else if includes_str lowerMessage ''help'' \<or> includes_str lowerMessage ''how'' then help_response
      else generic_response)"

subsection \<open>The request handler\<close>

text \<open>
  JSON values, as \<open>Request.json()\<close> and \<open>Response.json()\<close> deliver them and
  \<open>JSON.stringify\<close> writes them. An object is the list of its properties in creation
  order; numbers are kept as integers (only whether a number is zero matters below, so
  a number that is not an integer behaves as any non-zero integer does).
\<close>

datatype json =
    JNull
  | JBool bool
  | JNum int
  | JStr string
  | JArr "json list"
  | JObj "(string \<times> json) list"

text \<open>
  A value that may be \<open>undefined\<close> is a \<^typ>\<open>json option\<close>, \<open>None\<close> for \<open>undefined\<close>.
  \<open>truthy\<close> is the test that \<open>!v\<close>, \<open>v || w\<close> and \<open>if (v)\<close> apply.
\<close>

definition truthy :: "json option \<Rightarrow> bool" where
  "truthy v =
     (case v of
        None \<Rightarrow> False
      | Some JNull \<Rightarrow> False
      | Some (JBool b) \<Rightarrow> b
      | Some (JNum n) \<Rightarrow> n \<noteq> 0
      | Some (JStr s) \<Rightarrow> s \<noteq> []
      | Some _ \<Rightarrow> True)"

text \<open>
  Optional chaining on a value that may be \<open>undefined\<close>: \<open>v?.name\<close> and \<open>v?.[0]\<close>.
  Only an object has the named properties read here; index \<open>0\<close> exists on a non-empty
  array, on a non-empty string and on an object with a property \<open>0\<close>.
\<close>

definition opt_prop :: "json option \<Rightarrow> string \<Rightarrow> json option" where
  "opt_prop v name = (case v of Some (JObj ps) \<Rightarrow> map_of ps name | _ \<Rightarrow> None)"

definition opt_first :: "json option \<Rightarrow> json option" where
  "opt_first v =
     (case v of
        Some (JArr xs) \<Rightarrow> (case xs of [] \<Rightarrow> None | x # _ \<Rightarrow> Some x)
      | Some (JStr s) \<Rightarrow> (case s of [] \<Rightarrow> None | c # _ \<Rightarrow> Some (JStr [c]))
      | Some (JObj ps) \<Rightarrow> map_of ps ''0''
      | _ \<Rightarrow> None)"

text \<open>
  The interface \<open>ChatbotRequest\<close> names the three properties the handler reads. The
  interface is not checked when the handler runs: each property is whatever JSON value
  the body carries under that name, or \<open>undefined\<close>. \<open>destructure\<close> is
  \<open>const { message, user_id, apiKey } = ...\<close>, which throws on \<open>null\<close> (here \<open>None\<close>)
  and finds no such property on a number, a string, a boolean or an array.
\<close>

record ChatbotRequest =
  message :: "json option"
  user_id :: "json option"
  apiKey :: "json option"

definition destructure :: "json \<Rightarrow> ChatbotRequest option" where
  "destructure v =
     (case v of
        JNull \<Rightarrow> None
      | _ \<Rightarrow>
          Some \<lparr>message = opt_prop (Some v) ''message'',
                user_id = opt_prop (Some v) ''user_id'',
                apiKey = opt_prop (Some v) ''apiKey''\<rparr>)"

text \<open>\<open>req_json\<close> is the outcome of \<open>await req.json()\<close>: \<open>None\<close> when it rejects.\<close>

record http_request =
  req_method :: string
  req_json :: "json option"

record http_response =
  status :: nat
  body :: "json option"

text \<open>
  The generative-language endpoint is outside the repository. A call of \<open>fetch\<close> either
  rejects (a network failure) or resolves to a response, of which the handler reads the
  status and then the body: \<open>gemini_text\<close> is the outcome of \<open>await geminiResponse.text()\<close>,
  \<open>None\<close> when reading the body rejects, and \<open>gemini_json\<close> that of
  \<open>await geminiResponse.json()\<close>, \<open>None\<close> when it rejects (the body cannot be read or is
  not JSON text).
\<close>

record gemini_response =
  gemini_status :: nat
  gemini_text :: "string option"
  gemini_json :: "json option"

datatype fetch_result = FetchRejected | FetchResponse gemini_response

definition ok :: "gemini_response \<Rightarrow> bool" where
  "ok g = (200 \<le> gemini_status g \<and> gemini_status g \<le> 299)"

text \<open>
  \<open>generateFallbackResponse(message)\<close> for the value the request carries: on anything
  but a string, \<open>message.toLowerCase\<close> is not a function and the call throws (\<open>None\<close>).
\<close>

definition fallbackResponse :: "json \<Rightarrow> string option" where
  "fallbackResponse msg =
     (case msg of JStr s \<Rightarrow> Some (generateFallbackResponse s) | _ \<Rightarrow> None)"

definition processing_apology :: string where
  "processing_apology = ''I apologize, but I encountered an error processing your request.''"

text \<open>\<open>geminiData.candidates?.[0]?.content?.parts?.[0]?.text || '...'\<close>, for \<open>geminiData\<close> not \<open>null\<close>.\<close>

definition aiResponse :: "json \<Rightarrow> json" where
  "aiResponse geminiData =
     (let text =
        opt_prop (opt_first (opt_prop (opt_prop (opt_first
          (opt_prop (Some geminiData) ''candidates'')) ''content'') ''parts'')) ''text''
      in case text of
           None \<Rightarrow> JStr processing_apology
         | Some t \<Rightarrow> if truthy text then t else JStr processing_apology)"

definition reply :: "json \<Rightarrow> http_response" where
  "reply r = \<lparr>status = 200, body = Some (JObj [(''response'', r)])\<rparr>"

definition preflight_response :: http_response where
  "preflight_response = \<lparr>status = 200, body = None\<rparr>"

definition missing_fields_response :: http_response where
  "missing_fields_response =
     \<lparr>status = 400, body = Some (JObj [(''error'', JStr ''Missing required fields'')])\<rparr>"

definition catch_response :: http_response where
  "catch_response =
     \<lparr>status = 500,
      body = Some (JObj
        [(''error'', JStr ''An error occurred while processing your request''),
         (''response'', JStr ''I apologize, but I'm having trouble connecting right now. Please try again later.'')])\<rparr>"

text \<open>
  A template literal \<open>`...${v}...`\<close> converts \<open>v\<close> to a string. The conversion throws
  for an object that has a property \<open>toString\<close> of its own (no JSON value is callable,
  and \<open>valueOf\<close> does not yield a primitive), and for an array when the conversion of
  one of its elements does, since \<open>join\<close> converts each element; it succeeds for every
  other value.
\<close>

fun interpolates :: "json \<Rightarrow> bool" where
  "interpolates (JObj ps) = (map_of ps ''toString'' = None)"
| "interpolates (JArr xs) = list_all interpolates xs"
| "interpolates v = True"

text \<open>
  The handler given to \<open>Deno.serve\<close>. \<open>fetch key msg\<close> is what the call of the endpoint
  with that key and that user message comes to. Every exception inside the \<open>try\<close> block
  ends in the \<open>catch\<close> branch: the request body is not JSON or is \<open>null\<close>, the message
  is not a string where the fallback is computed, the key or the message cannot be
  written into the URL and the prompt of the call, \<open>fetch\<close> rejects, the body of the
  response cannot be read or is not JSON, or a property of \<open>null\<close> is read. The
  branches for an absent message or key below a test that found it truthy are never
  taken.
\<close>

definition serve :: "(json \<Rightarrow> json \<Rightarrow> fetch_result) \<Rightarrow> http_request \<Rightarrow> http_response" where
  "serve fetch req =
     (if req_method req = ''OPTIONS'' then preflight_response
      else case req_json req of
        None \<Rightarrow> catch_response
      | Some v \<Rightarrow>
         (case destructure v of
            None \<Rightarrow> catch_response
          | Some r \<Rightarrow>
              if \<not> truthy (message r) \<or> \<not> truthy (user_id r) then missing_fields_response
              else
                (case message r of
                   None \<Rightarrow> missing_fields_response
                 | Some msg \<Rightarrow>
                     if \<not> truthy (apiKey r) then
                       (case fallbackResponse msg of
                          None \<Rightarrow> catch_response
                        | Some canned \<Rightarrow> reply (JStr canned))
                     else
                       (case apiKey r of
                          None \<Rightarrow> catch_response
                        | Some key \<Rightarrow>
                           if \<not> (interpolates key \<and> interpolates msg) then catch_response
                           else
                           (case fetch key msg of
                              FetchRejected \<Rightarrow> catch_response
                            | FetchResponse geminiResponse \<Rightarrow>
                                if \<not> ok geminiResponse then
                                  (case gemini_text geminiResponse of
                                     None \<Rightarrow> catch_response
                                   | Some errorText \<Rightarrow>
                                      (case fallbackResponse msg of
                                         None \<Rightarrow> catch_response
                                       | Some canned \<Rightarrow> reply (JStr canned)))
                                else
                                  (case gemini_json geminiResponse of
                                     None \<Rightarrow> catch_response
                                   | Some JNull \<Rightarrow> catch_response
                                   | Some geminiData \<Rightarrow> reply (aiResponse geminiData)))))))"

text \<open>Two endpoints that treat every call alike: one that cannot be reached, one that
  always answers with the same response.\<close>

definition endpoint_unreachable :: "json \<Rightarrow> json \<Rightarrow> fetch_result" where
  "endpoint_unreachable key msg = FetchRejected"

definition endpoint_answering :: "gemini_response \<Rightarrow> json \<Rightarrow> json \<Rightarrow> fetch_result" where
  "endpoint_answering g key msg = FetchResponse g"

section \<open>Records View\<close>

text \<open>
  A row of \<open>field_records\<close> and the filter state of the view. The attribute \<open>field\<close>
  occurs in three of the source's types and \<open>id\<close> and \<open>value\<close> are taken in HOL, so
  the attributes carry the prefix of their type.
\<close>

record FieldRecord =
  rec_id :: string
  rec_field :: string
  rec_value :: string
  rec_location :: string
  rec_timestamp :: string
  rec_user_id :: string

record FilterState =
  flt_field :: string
  flt_location :: string
  dateFrom :: string
  dateTo :: string

subsection \<open>The Date constructor\<close>

text \<open>
  \<open>new Date(s)\<close> yields a time value, in milliseconds since the epoch, or the invalid
  date, whose time value is \<open>NaN\<close>: here \<open>None\<close>. Every comparison with \<open>NaN\<close> is
  false. The filter takes the constructor as a parameter \<open>newDate\<close>, since it belongs
  to the host.
\<close>

definition date_ge :: "int option \<Rightarrow> int option \<Rightarrow> bool" where
  "date_ge a b = (case a of None \<Rightarrow> False | Some x \<Rightarrow> (case b of None \<Rightarrow> False | Some y \<Rightarrow> y \<le> x))"

definition date_le :: "int option \<Rightarrow> int option \<Rightarrow> bool" where
  "date_le a b = (case a of None \<Rightarrow> False | Some x \<Rightarrow> (case b of None \<Rightarrow> False | Some y \<Rightarrow> x \<le> y))"

text \<open>
  \<open>Date_iso tz\<close> is the constructor on the date-time string format of ECMAScript,
  \<open>YYYY-MM-DDTHH:mm:ss.sssZ\<close> and its shorter forms, for a host whose local time is
  \<open>tz\<close> minutes ahead of UTC throughout: a date alone is read as UTC, a date with a
  time and no offset as local time. What a host makes of any other string is its own
  affair; here it is the invalid date.
\<close>

definition digit_of :: "char \<Rightarrow> nat option" where
  "digit_of c = map_of (zip ''0123456789'' [0, 1, 2, 3, 4, 5, 6, 7, 8, 9]) c"

fun digits_acc :: "nat \<Rightarrow> string \<Rightarrow> nat option" where
  "digits_acc n [] = Some n"
| "digits_acc n (c # cs) =
     (case digit_of c of None \<Rightarrow> None | Some d \<Rightarrow> digits_acc (10 * n + d) cs)"

definition num :: "string \<Rightarrow> nat option" where
  "num s = (if s = [] then None else digits_acc 0 s)"

text \<open>The fields of a string that has the given separator at each given position.\<close>

definition parse_date :: "string \<Rightarrow> (nat \<times> nat \<times> nat) option" where
  "parse_date s =
     (if length s = 4 then
        (case num s of None \<Rightarrow> None | Some y \<Rightarrow> Some (y, 1, 1))
      else if length s = 7 \<and> s ! 4 = CHR ''-'' then
        (case num (take 4 s) of None \<Rightarrow> None | Some y \<Rightarrow>
         case num (drop 5 s) of None \<Rightarrow> None | Some m \<Rightarrow> Some (y, m, 1))
      else if length s = 10 \<and> s ! 4 = CHR ''-'' \<and> s ! 7 = CHR ''-'' then
        (case num (take 4 s) of None \<Rightarrow> None | Some y \<Rightarrow>
         case num (take 2 (drop 5 s)) of None \<Rightarrow> None | Some m \<Rightarrow>
         case num (drop 8 s) of None \<Rightarrow> None | Some d \<Rightarrow> Some (y, m, d))
      else None)"

definition parse_clock :: "string \<Rightarrow> (nat \<times> nat \<times> nat \<times> nat) option" where
  "parse_clock s =
     (if length s = 5 \<and> s ! 2 = CHR '':'' then
        (case num (take 2 s) of None \<Rightarrow> None | Some h \<Rightarrow>
         case num (drop 3 s) of None \<Rightarrow> None | Some mi \<Rightarrow> Some (h, mi, 0, 0))
      else if length s = 8 \<and> s ! 2 = CHR '':'' \<and> s ! 5 = CHR '':'' then
        (case num (take 2 s) of None \<Rightarrow> None | Some h \<Rightarrow>
         case num (take 2 (drop 3 s)) of None \<Rightarrow> None | Some mi \<Rightarrow>
         case num (drop 6 s) of None \<Rightarrow> None | Some sec \<Rightarrow> Some (h, mi, sec, 0))
      else if length s = 12 \<and> s ! 2 = CHR '':'' \<and> s ! 5 = CHR '':'' \<and> s ! 8 = CHR ''.'' then
        (case num (take 2 s) of None \<Rightarrow> None | Some h \<Rightarrow>
         case num (take 2 (drop 3 s)) of None \<Rightarrow> None | Some mi \<Rightarrow>
         case num (take 2 (drop 6 s)) of None \<Rightarrow> None | Some sec \<Rightarrow>
         case num (drop 9 s) of None \<Rightarrow> None | Some ms \<Rightarrow> Some (h, mi, sec, ms))
      else None)"

text \<open>The UTC offset, in minutes: \<open>Z\<close>, or a sign and \<open>HH:mm\<close>.\<close>

definition parse_offset :: "string \<Rightarrow> int option" where
  "parse_offset z =
     (if z = ''Z'' then Some 0
      else if length z = 6 \<and> (z ! 0 = CHR ''+'' \<or> z ! 0 = CHR ''-'') \<and> z ! 3 = CHR '':'' then
        (case num (take 2 (drop 1 z)) of None \<Rightarrow> None | Some h \<Rightarrow>
         case num (drop 4 z) of None \<Rightarrow> None | Some mi \<Rightarrow>
           if 23 < h \<or> 59 < mi then None
           else if z ! 0 = CHR ''+'' then Some (int (60 * h + mi))
           else Some (- int (60 * h + mi)))
      else None)"

text \<open>The day number of the first day of a month, counted from 1970-01-01.\<close>

definition days_from_civil :: "int \<Rightarrow> int \<Rightarrow> int" where
  "days_from_civil y m =
     (let y' = (if m \<le> 2 then y - 1 else y);
          era = y' div 400;
          yoe = y' - era * 400;
          doy = (153 * (if 2 < m then m - 3 else m + 9) + 2) div 5;
          doe = yoe * 365 + yoe div 4 - yoe div 100 + doy
      in era * 146097 + doe - 719468)"

definition valid_date :: "nat \<times> nat \<times> nat \<Rightarrow> bool" where
  "valid_date ymd = (case ymd of (y, m, d) \<Rightarrow> 1 \<le> m \<and> m \<le> 12 \<and> 1 \<le> d \<and> d \<le> 31)"

definition valid_clock :: "nat \<times> nat \<times> nat \<times> nat \<Rightarrow> bool" where
  "valid_clock c =
     (case c of (h, mi, sec, ms) \<Rightarrow>
        mi \<le> 59 \<and> sec \<le> 59 \<and> (h \<le> 23 \<or> (h = 24 \<and> mi = 0 \<and> sec = 0 \<and> ms = 0)))"

definition day_ms :: "nat \<times> nat \<times> nat \<Rightarrow> int" where
  "day_ms ymd =
     (case ymd of (y, m, d) \<Rightarrow> (days_from_civil (int y) (int m) + int d - 1) * 86400000)"

definition clock_ms :: "nat \<times> nat \<times> nat \<times> nat \<Rightarrow> int" where
  "clock_ms c = (case c of (h, mi, sec, ms) \<Rightarrow> int (h * 3600000 + mi * 60000 + sec * 1000 + ms))"

definition Date_iso :: "int \<Rightarrow> string \<Rightarrow> int option" where
  "Date_iso tz s =
     (let date = takeWhile (\<lambda>c. c \<noteq> CHR ''T'') s;
          rest = dropWhile (\<lambda>c. c \<noteq> CHR ''T'') s
      in case parse_date date of
           None \<Rightarrow> None
         | Some ymd \<Rightarrow>
             if \<not> valid_date ymd then None
             else if rest = [] then Some (day_ms ymd)
             else
               (let clock = takeWhile (\<lambda>c. c \<notin> set ''Z+-'') (tl rest);
                    zone = dropWhile (\<lambda>c. c \<notin> set ''Z+-'') (tl rest)
                in case parse_clock clock of
                     None \<Rightarrow> None
                   | Some hms \<Rightarrow>
                       if \<not> valid_clock hms then None
                       else if zone = [] then Some (day_ms ymd + clock_ms hms - tz * 60000)
                       else
                         (case parse_offset zone of
                            None \<Rightarrow> None
                          | Some off \<Rightarrow> Some (day_ms ymd + clock_ms hms - off * 60000))))"

subsection \<open>applyFilters\<close>

text \<open>
  \<open>applyFilters\<close> reads the state of the view (\<open>records\<close>, \<open>searchTerm\<close>, \<open>filters\<close>)
  and hands its result to \<open>setFilteredRecords\<close>; the model returns that result. A
  criterion that is the empty string is falsy and its step is skipped.
\<close>

definition applyFilters ::
  "(string \<Rightarrow> int option) \<Rightarrow> FieldRecord list \<Rightarrow> string \<Rightarrow> FilterState \<Rightarrow> FieldRecord list" where
  "applyFilters newDate records searchTerm filters =
     (let filtered = records;
          filtered =
            (if searchTerm \<noteq> [] then
               filter (\<lambda>record.
                 includes_str (toLowerCase (rec_field record)) (toLowerCase searchTerm) \<or>
                 includes_str (toLowerCase (rec_value record)) (toLowerCase searchTerm) \<or>
                 includes_str (toLowerCase (rec_location record)) (toLowerCase searchTerm)) filtered
             else filtered);
          filtered =
            (if flt_field filters \<noteq> [] then
               filter (\<lambda>record.
                 includes_str (toLowerCase (rec_field record)) (toLowerCase (flt_field filters))) filtered
             else filtered);
          filtered =
            (if flt_location filters \<noteq> [] then
               filter (\<lambda>record.
                 includes_str (toLowerCase (rec_location record)) (toLowerCase (flt_location filters))) filtered
             else filtered);
          filtered =
            (if dateFrom filters \<noteq> [] then
               filter (\<lambda>record.
                 date_ge (newDate (rec_timestamp record)) (newDate (dateFrom filters))) filtered
             else filtered);
          filtered =
            (if dateTo filters \<noteq> [] then
               filter (\<lambda>record.
                 date_le (newDate (rec_timestamp record)) (newDate (dateTo filters @ ''T23:59:59''))) filtered
             else filtered)
      in filtered)"

text \<open>
  What a caller sees of one run. The source has no \<open>throw\<close> and none of the operations
  it applies to strings throws, so a run always ends with a result.
\<close>

datatype filter_error = InvalidFilterError

definition applyFilters_outcome ::
  "(string \<Rightarrow> int option) \<Rightarrow> FieldRecord list \<Rightarrow> string \<Rightarrow> FilterState \<Rightarrow> filter_error + FieldRecord list" where
  "applyFilters_outcome newDate records searchTerm filters =
     Inr (applyFilters newDate records searchTerm filters)"

subsection \<open>exportFiltered\<close>

text \<open>
  \<open>Array.prototype.join\<close> on an array of strings: the elements with the separator
  between them, nothing before the first or after the last.
\<close>

fun join :: "string \<Rightarrow> string list \<Rightarrow> string" where
  "join sep [] = []"
| "join sep [x] = x"
| "join sep (x # y # ys) = x @ sep @ join sep (y # ys)"

definition csvHeaders :: "string list" where
  "csvHeaders = [''ID'', ''Field'', ''Value'', ''Location'', ''Timestamp'']"

definition exportFiltered_csvContent :: "FieldRecord list \<Rightarrow> string" where
  "exportFiltered_csvContent filteredRecords =
     join [CHR 0x0A]
       (join '','' csvHeaders #
        map (\<lambda>record.
          join '','' [rec_id record, rec_field record, rec_value record,
                     rec_location record, rec_timestamp record]) filteredRecords)"

section \<open>Dashboard\<close>

record FieldData =
  fd_field :: string
  fd_count :: nat
  fd_value :: string

subsection \<open>Plain objects\<close>

text \<open>
  The accumulator of the grouping is a plain object used as a dictionary. Its own
  properties are kept as a list in creation order. Reading \<open>acc[k]\<close> also sees what
  the object inherits from \<open>Object.prototype\<close>: for the names below the value read is
  a function or the prototype itself, which is truthy, whether or not \<open>acc\<close> has an
  own property of that name.
\<close>

definition Object_prototype_names :: "string list" where
  "Object_prototype_names =
     [''constructor'', ''hasOwnProperty'', ''isPrototypeOf'', ''propertyIsEnumerable'',
      ''toLocaleString'', ''toString'', ''valueOf'', ''__proto__'',
      ''__defineGetter__'', ''__defineSetter__'', ''__lookupGetter__'', ''__lookupSetter__'']"

text \<open>
  A property name is an array index when it is the decimal numeral, without leading
  zeros, of a number below \<open>2^32 - 1\<close>. \<open>Object.values\<close> lists the own properties with
  the array indices first, in ascending numeric order, and then the other names in
  creation order.
\<close>

definition array_index :: "string \<Rightarrow> nat option" where
  "array_index k =
     (if k = ''0'' then Some 0
      else case k of
        [] \<Rightarrow> None
      | c # _ \<Rightarrow>
          if c = CHR ''0'' then None
          else (case num k of
                  None \<Rightarrow> None
                | Some n \<Rightarrow> if n \<le> 4294967294 then Some n else None))"

definition is_index :: "string \<times> 'a \<Rightarrow> bool" where
  "is_index p = (case array_index (fst p) of None \<Rightarrow> False | Some _ \<Rightarrow> True)"

definition index_key :: "string \<times> 'a \<Rightarrow> nat" where
  "index_key p = (case array_index (fst p) of None \<Rightarrow> 0 | Some n \<Rightarrow> n)"

definition Object_values :: "(string \<times> 'a) list \<Rightarrow> 'a list" where
  "Object_values obj =
     map snd (sort_key index_key (filter is_index obj) @ filter (\<lambda>p. \<not> is_index p) obj)"

subsection \<open>loadDashboardData\<close>

text \<open>
  One step of the \<open>reduce\<close>. For a field name that \<open>Object.prototype\<close> carries,
  \<open>!acc[record.field]\<close> is false from the start, no own property is created, and the
  increment is applied to the inherited value: the accumulator is as before.
\<close>

definition group_step :: "(string \<times> FieldData) list \<Rightarrow> FieldRecord \<Rightarrow> (string \<times> FieldData) list" where
  "group_step acc record =
     (if rec_field record \<in> set Object_prototype_names then acc
      else
        (let acc' =
           (case map_of acc (rec_field record) of
              None \<Rightarrow>
                acc @ [(rec_field record,
                        \<lparr>fd_field = rec_field record, fd_count = 0, fd_value = rec_value record\<rparr>)]
            | Some _ \<Rightarrow> acc)
         in map (\<lambda>p. if fst p = rec_field record
                      then (fst p, (snd p)\<lparr>fd_count := fd_count (snd p) + 1\<rparr>)
                      else p) acc'))"

definition groupedData :: "FieldRecord list option \<Rightarrow> (string \<times> FieldData) list" where
  "groupedData fieldData = (case fieldData of None \<Rightarrow> [] | Some rs \<Rightarrow> foldl group_step [] rs)"

definition recentRecords :: "FieldRecord list option \<Rightarrow> FieldData list" where
  "recentRecords fieldData = take 5 (Object_values (groupedData fieldData))"

subsection \<open>exportData\<close>

text \<open>The \<open>csv\<close> branch; without rows the function returns before it builds any content.\<close>

definition exportData_csvContent :: "FieldRecord list option \<Rightarrow> string option" where
  "exportData_csvContent records =
     (case records of
        None \<Rightarrow> None
      | Some rs \<Rightarrow>
          Some (join [CHR 0x0A]
            (join '','' [''ID'', ''Field'', ''Value'', ''Location'', ''Timestamp''] #
             map (\<lambda>record.
               join '','' [rec_id record, rec_field record, rec_value record,
                          rec_location record, rec_timestamp record]) rs)))"

section \<open>The behaviour the specification describes\<close>

text \<open>
  The classifier as the specification words it: an ordered table of keywords and
  replies, tried from the top, the first rule with a keyword that occurs in the
  message wins, and the generic reply when none does. A keyword occurs in a message
  when some contiguous part of the message is the keyword once lowercased.
\<close>

definition keyword_rules :: "(string list \<times> string) list" where
  "keyword_rules =
     [([''temperature''], temperature_response),
      ([''humidity''], humidity_response),
      ([''soil'', ''ph''], soil_response),
      ([''data'', ''record''], data_response),
      ([''help'', ''how''], help_response)]"

definition mentions :: "string \<Rightarrow> string \<Rightarrow> bool" where
  "mentions msg k = (\<exists>ps w ss. msg = ps @ w @ ss \<and> toLowerCase w = k)"

fun first_match :: "string \<Rightarrow> (string list \<times> string) list \<Rightarrow> string" where
  "first_match msg [] = generic_response"
| "first_match msg (rule # rules) =
     (if list_ex (mentions msg) (fst rule) then snd rule else first_match msg rules)"

definition canned_responses :: "string list" where
  "canned_responses =
     [temperature_response, humidity_response, soil_response, data_response,
      help_response, generic_response]"

text \<open>
  The filter as one predicate on a record: every criterion that is not empty has to
  hold.
\<close>

definition matches :: "(string \<Rightarrow> int option) \<Rightarrow> string \<Rightarrow> FilterState \<Rightarrow> FieldRecord \<Rightarrow> bool" where
  "matches newDate searchTerm filters record =
     ((searchTerm = [] \<or>
         includes_str (toLowerCase (rec_field record)) (toLowerCase searchTerm) \<or>
         includes_str (toLowerCase (rec_value record)) (toLowerCase searchTerm) \<or>
         includes_str (toLowerCase (rec_location record)) (toLowerCase searchTerm)) \<and>
      (flt_field filters = [] \<or>
         includes_str (toLowerCase (rec_field record)) (toLowerCase (flt_field filters))) \<and>
      (flt_location filters = [] \<or>
         includes_str (toLowerCase (rec_location record)) (toLowerCase (flt_location filters))) \<and>
      (dateFrom filters = [] \<or>
         date_ge (newDate (rec_timestamp record)) (newDate (dateFrom filters))) \<and>
      (dateTo filters = [] \<or>
         date_le (newDate (rec_timestamp record)) (newDate (dateTo filters @ ''T23:59:59''))))"

text \<open>
  The aggregation as the specification words it: the distinct field names in the order
  in which they are first seen, each with the number of records of that field and the
  value of the first such record, cut to \<open>limit\<close> groups.
\<close>

definition first_seen :: "'a list \<Rightarrow> 'a list" where
  "first_seen xs = rev (remdups (rev xs))"

definition group_of :: "FieldRecord list \<Rightarrow> string \<Rightarrow> FieldData" where
  "group_of rs f =
     \<lparr>fd_field = f,
      fd_count = length (filter (\<lambda>r. rec_field r = f) rs),
      fd_value = (case find (\<lambda>r. rec_field r = f) rs of None \<Rightarrow> [] | Some r \<Rightarrow> rec_value r)\<rparr>"

definition aggregate :: "FieldRecord list \<Rightarrow> nat \<Rightarrow> FieldData list" where
  "aggregate rs limit = take limit (map (group_of rs) (first_seen (map rec_field rs)))"

text \<open>
  A field name is plain when it is neither an array index nor the name of a property
  that every object inherits.
\<close>

definition plain_name :: "string \<Rightarrow> bool" where
  "plain_name f = (f \<notin> set Object_prototype_names \<and> array_index f = None)"

section \<open>The fallback classifier\<close>

lemma includes_str_sublist: "includes_str s t = sublist t s"
  by (induction s) (auto simp: sublist_Cons_right)

lemma includes_lower_mentions: "includes_str (toLowerCase msg) k = mentions msg k"
proof
  assume "includes_str (toLowerCase msg) k"
  then obtain ps ss where "map lower_char msg = ps @ k @ ss"
    by (auto simp: includes_str_sublist sublist_def toLowerCase_def)
  then show "mentions msg k"
    unfolding mentions_def toLowerCase_def
    by (metis append_eq_map_conv)
next
  assume "mentions msg k"
  then show "includes_str (toLowerCase msg) k"
    by (auto simp: mentions_def includes_str_sublist toLowerCase_def)
qed

lemma classify_examples:
  "generateFallbackResponse ''What's the ideal soil pH?'' = soil_response"
  "generateFallbackResponse ''hello'' = generic_response"
  "generateFallbackResponse ''temperature check'' = temperature_response"
  by (simp_all add: generateFallbackResponse_def toLowerCase_def lower_char_def)

text \<open>
  Claim C3. The classifier is the ordered rule table of the specification: temperature;
  humidity; soil or ph; data or record; help or how; otherwise the generic reply, with
  the first matching rule winning and a match being a case-insensitive substring test.
  The message \<open>What's the ideal soil pH?\<close> gets the soil reply, which is not the
  generic one, and \<open>hello\<close> gets the generic reply.
\<close>

theorem generateFallbackResponse_first_match:
  "generateFallbackResponse msg = first_match msg keyword_rules
   \<and> generateFallbackResponse ''What's the ideal soil pH?'' = soil_response
   \<and> soil_response \<noteq> generic_response
   \<and> generateFallbackResponse ''hello'' = generic_response"
proof -
  have "generateFallbackResponse msg = first_match msg keyword_rules"
    by (simp add: generateFallbackResponse_def keyword_rules_def includes_lower_mentions Let_def)
  moreover have "soil_response \<noteq> generic_response"
    by (simp add: soil_response_def generic_response_def)
  ultimately show ?thesis using classify_examples by simp
qed

lemma canned_distinct: "distinct canned_responses"
  unfolding canned_responses_def temperature_response_def humidity_response_def
    soil_response_def data_response_def help_response_def generic_response_def
  by simp

lemma canned_reached: "set canned_responses \<subseteq> range generateFallbackResponse"
proof -
  have "generateFallbackResponse ''temperature'' = temperature_response"
    "generateFallbackResponse ''humidity'' = humidity_response"
    "generateFallbackResponse ''soil'' = soil_response"
    "generateFallbackResponse ''data'' = data_response"
    "generateFallbackResponse ''help'' = help_response"
    "generateFallbackResponse [] = generic_response"
    by (simp_all add: generateFallbackResponse_def toLowerCase_def lower_char_def)
  then show ?thesis
    unfolding canned_responses_def
    by (metis (no_types, lifting) list.simps(15) empty_set insert_subset rangeI empty_subsetI)
qed

text \<open>
  Claim C10. The classifier is a total function of the message alone (it reads no state,
  so equal messages get equal replies): for every message its value is one of six fixed
  replies, the six are pairwise different and none is empty, and each of them is the
  reply to some message.
\<close>

theorem generateFallbackResponse_canned:
  "generateFallbackResponse msg \<in> set canned_responses
   \<and> length canned_responses = 6
   \<and> distinct canned_responses
   \<and> [] \<notin> set canned_responses
   \<and> range generateFallbackResponse = set canned_responses"
proof -
  have mem: "generateFallbackResponse m \<in> set canned_responses" for m
    by (simp add: generateFallbackResponse_def canned_responses_def Let_def)
  have ne: "[] \<notin> set canned_responses"
    unfolding canned_responses_def temperature_response_def humidity_response_def
      soil_response_def data_response_def help_response_def generic_response_def
    by simp
  have "range generateFallbackResponse = set canned_responses"
    using mem canned_reached by blast
  then show ?thesis
    using mem ne canned_distinct by (simp add: canned_responses_def)
qed

section \<open>The request handler's paths\<close>

lemma response_distinct:
  "reply v \<noteq> missing_fields_response" "catch_response \<noteq> missing_fields_response"
  "reply v \<noteq> catch_response" "catch_response \<noteq> reply v"
  by (simp_all add: reply_def missing_fields_response_def catch_response_def)

lemma temperature_not_apology:
  "temperature_response \<noteq> processing_apology" "processing_apology \<noteq> temperature_response"
  by (simp_all add: temperature_response_def processing_apology_def)

lemmas handler_defs =
  serve_def destructure_def opt_prop_def opt_first_def truthy_def ok_def fallbackResponse_def
  aiResponse_def endpoint_unreachable_def endpoint_answering_def

text \<open>What the handler does with a request that is not a preflight and whose body destructures.\<close>

lemma serve_body:
  assumes "req_method req \<noteq> ''OPTIONS''" "req_json req = Some v" "destructure v = Some r"
  shows "serve fetch req =
     (if \<not> truthy (message r) \<or> \<not> truthy (user_id r) then missing_fields_response
      else
        (case message r of
           None \<Rightarrow> missing_fields_response
         | Some msg \<Rightarrow>
             if \<not> truthy (apiKey r) then
               (case fallbackResponse msg of
                  None \<Rightarrow> catch_response
                | Some canned \<Rightarrow> reply (JStr canned))
             else
               (case apiKey r of
                  None \<Rightarrow> catch_response
                | Some key \<Rightarrow>
                   if \<not> (interpolates key \<and> interpolates msg) then catch_response
                   else
                   (case fetch key msg of
                      FetchRejected \<Rightarrow> catch_response
                    | FetchResponse geminiResponse \<Rightarrow>
                        if \<not> ok geminiResponse then
                          (case gemini_text geminiResponse of
                             None \<Rightarrow> catch_response
                           | Some errorText \<Rightarrow>
                              (case fallbackResponse msg of
                                 None \<Rightarrow> catch_response
                               | Some canned \<Rightarrow> reply (JStr canned)))
                        else
                          (case gemini_json geminiResponse of
                             None \<Rightarrow> catch_response
                           | Some JNull \<Rightarrow> catch_response
                           | Some geminiData \<Rightarrow> reply (aiResponse geminiData))))))"
  using assms by (simp add: serve_def)

lemma serve_missing_iff:
  assumes "req_method req \<noteq> ''OPTIONS''" "req_json req = Some v" "destructure v = Some r"
  shows "serve fetch req = missing_fields_response \<longleftrightarrow>
             \<not> truthy (message r) \<or> \<not> truthy (user_id r)"
proof (cases "\<not> truthy (message r) \<or> \<not> truthy (user_id r)")
  case True
  then show ?thesis using serve_body [OF assms, of fetch] by simp
next
  case False
  then obtain msg where msg: "message r = Some msg"
    by (cases "message r") (auto simp: truthy_def)
  have "serve fetch req \<noteq> missing_fields_response"
    unfolding serve_body [OF assms, of fetch]
    using False msg response_distinct
    by (simp split: option.split fetch_result.split json.split)
  then show ?thesis using False by simp
qed

text \<open>
  Claim C1, as stated, fails: for a request with a message, a user and a key, a
  rejected \<open>fetch\<close> (a network failure) ends in the \<open>catch\<close> branch, which answers with
  status 500 and an \<open>error\<close> property and not with the classifier's reply; so does a
  response with status 503 whose body cannot be read; and a 2xx response whose JSON
  body carries no candidate gets the fixed apology with status 200, not the
  classifier's reply either.
\<close>

theorem serve_fetch_rejected_counterexample:
  "serve endpoint_unreachable
     \<lparr>req_method = ''POST'',
      req_json = Some (JObj [(''message'', JStr ''temperature check''), (''user_id'', JStr ''u1''),
                             (''apiKey'', JStr ''k1'')])\<rparr>
     = catch_response
   \<and> status catch_response = 500
   \<and> catch_response \<noteq> reply (JStr (generateFallbackResponse ''temperature check''))
   \<and> serve (endpoint_answering
              \<lparr>gemini_status = 503, gemini_text = None, gemini_json = None\<rparr>)
     \<lparr>req_method = ''POST'',
      req_json = Some (JObj [(''message'', JStr ''temperature check''), (''user_id'', JStr ''u1''),
                             (''apiKey'', JStr ''k1'')])\<rparr>
     = catch_response
   \<and> serve (endpoint_answering
              \<lparr>gemini_status = 200, gemini_text = Some ''{}'', gemini_json = Some (JObj [])\<rparr>)
     \<lparr>req_method = ''POST'',
      req_json = Some (JObj [(''message'', JStr ''temperature check''), (''user_id'', JStr ''u1''),
                             (''apiKey'', JStr ''k1'')])\<rparr>
     = reply (JStr processing_apology)
   \<and> reply (JStr processing_apology) \<noteq> reply (JStr (generateFallbackResponse ''temperature check''))"
  by (simp add: handler_defs classify_examples reply_def catch_response_def temperature_not_apology)

text \<open>
  Claim C1, amended. A preflight is answered with status 200 and no body. For any
  other request: a body that is not JSON, or is \<open>null\<close>, is answered by the \<open>catch\<close>
  branch, status 500 with an \<open>error\<close> property. Otherwise the answer is
  \<open>Missing required fields\<close> with status 400 exactly when the message or the user
  identifier is absent or falsy. For a request in which both are truthy: without a
  truthy key, and with one when the endpoint answers with a status outside 200..299 and
  the body of that answer can be read, the answer is the classifier's reply to the
  message with status 200, or that of the \<open>catch\<close> branch when the message is not a
  string; when \<open>fetch\<close> rejects, or the body of an answer outside 200..299 cannot be
  read, or the body of a 2xx answer is not JSON or is \<open>null\<close>, the answer is that of
  the \<open>catch\<close> branch, as it is when the key or the message cannot be written into the
  call; for any other 2xx JSON body the answer is the candidate text or the fixed
  apology, with status 200.
\<close>

theorem serve_paths:
  "(req_method req = ''OPTIONS'' \<longrightarrow> serve fetch req = preflight_response)
   \<and> (req_method req \<noteq> ''OPTIONS'' \<longrightarrow>
       (req_json req = None \<or> req_json req = Some JNull \<longrightarrow> serve fetch req = catch_response)
     \<and> (\<forall>v r. req_json req = Some v \<and> destructure v = Some r \<longrightarrow>
          (serve fetch req = missing_fields_response \<longleftrightarrow>
             \<not> truthy (message r) \<or> \<not> truthy (user_id r))
        \<and> (\<forall>msg. message r = Some msg \<and> truthy (message r) \<and> truthy (user_id r) \<longrightarrow>
             (\<not> truthy (apiKey r) \<longrightarrow>
                serve fetch req =
                  (case fallbackResponse msg of None \<Rightarrow> catch_response | Some c \<Rightarrow> reply (JStr c)))
           \<and> (\<forall>key. apiKey r = Some key \<and> truthy (apiKey r) \<longrightarrow>
                (\<not> (interpolates key \<and> interpolates msg) \<longrightarrow> serve fetch req = catch_response)
              \<and> (interpolates key \<and> interpolates msg \<and> fetch key msg = FetchRejected \<longrightarrow>
                   serve fetch req = catch_response)
              \<and> (\<forall>g. interpolates key \<and> interpolates msg \<and>
                      fetch key msg = FetchResponse g \<and> \<not> ok g \<longrightarrow>
                    (gemini_text g = None \<longrightarrow> serve fetch req = catch_response)
                  \<and> (gemini_text g \<noteq> None \<longrightarrow>
                       serve fetch req =
                         (case fallbackResponse msg of
                            None \<Rightarrow> catch_response | Some c \<Rightarrow> reply (JStr c))))
              \<and> (\<forall>g. interpolates key \<and> interpolates msg \<and>
                      fetch key msg = FetchResponse g \<and> ok g \<and>
                      (gemini_json g = None \<or> gemini_json g = Some JNull) \<longrightarrow>
                      serve fetch req = catch_response)
              \<and> (\<forall>g d. interpolates key \<and> interpolates msg \<and>
                      fetch key msg = FetchResponse g \<and> ok g \<and>
                      gemini_json g = Some d \<and> d \<noteq> JNull \<longrightarrow>
                      serve fetch req = reply (aiResponse d))))))
   \<and> (\<forall>s. fallbackResponse (JStr s) = Some (generateFallbackResponse s))
   \<and> (\<forall>m. (\<forall>s. m \<noteq> JStr s) \<longrightarrow> fallbackResponse m = None)"
proof -
  have pre: "serve fetch req = preflight_response" if "req_method req = ''OPTIONS''"
    using that by (simp add: serve_def)
  have bad: "serve fetch req = catch_response"
    if "req_method req \<noteq> ''OPTIONS''" "req_json req = None \<or> req_json req = Some JNull"
    using that by (auto simp: serve_def destructure_def)
  have fb1: "fallbackResponse (JStr s) = Some (generateFallbackResponse s)" for s
    by (simp add: fallbackResponse_def)
  have fb2: "fallbackResponse m = None" if "\<forall>s. m \<noteq> JStr s" for m
    using that by (cases m) (simp_all add: fallbackResponse_def)
  have b: "serve fetch req =
             (case fallbackResponse msg of None \<Rightarrow> catch_response | Some c \<Rightarrow> reply (JStr c))"
    if "req_method req \<noteq> ''OPTIONS''" "req_json req = Some v" "destructure v = Some r"
       "message r = Some msg" "truthy (message r)" "truthy (user_id r)" "\<not> truthy (apiKey r)"
    for v r msg
    using that by (simp add: serve_body [OF that(1-3)])
  have ni: "serve fetch req = catch_response"
    if "req_method req \<noteq> ''OPTIONS''" "req_json req = Some v" "destructure v = Some r"
       "message r = Some msg" "truthy (message r)" "truthy (user_id r)"
       "apiKey r = Some key" "truthy (apiKey r)" "\<not> (interpolates key \<and> interpolates msg)"
    for v r msg key
    using that by (simp add: serve_body [OF that(1-3)])
  have c: "serve fetch req = catch_response"
    if "req_method req \<noteq> ''OPTIONS''" "req_json req = Some v" "destructure v = Some r"
       "message r = Some msg" "truthy (message r)" "truthy (user_id r)"
       "apiKey r = Some key" "truthy (apiKey r)"
       "interpolates key" "interpolates msg" "fetch key msg = FetchRejected" for v r msg key
    using that by (simp add: serve_body [OF that(1-3)])
  have d: "serve fetch req = catch_response"
    if "req_method req \<noteq> ''OPTIONS''" "req_json req = Some v" "destructure v = Some r"
       "message r = Some msg" "truthy (message r)" "truthy (user_id r)"
       "apiKey r = Some key" "truthy (apiKey r)"
       "interpolates key" "interpolates msg" "fetch key msg = FetchResponse g" "\<not> ok g"
       "gemini_text g = None" for v r msg key g
    using that by (simp add: serve_body [OF that(1-3)])
  have e: "serve fetch req =
             (case fallbackResponse msg of None \<Rightarrow> catch_response | Some c \<Rightarrow> reply (JStr c))"
    if "req_method req \<noteq> ''OPTIONS''" "req_json req = Some v" "destructure v = Some r"
       "message r = Some msg" "truthy (message r)" "truthy (user_id r)"
       "apiKey r = Some key" "truthy (apiKey r)"
       "interpolates key" "interpolates msg" "fetch key msg = FetchResponse g" "\<not> ok g"
       "gemini_text g \<noteq> None" for v r msg key g
    using that by (auto simp: serve_body [OF that(1-3)])
  have f: "serve fetch req = catch_response"
    if "req_method req \<noteq> ''OPTIONS''" "req_json req = Some v" "destructure v = Some r"
       "message r = Some msg" "truthy (message r)" "truthy (user_id r)"
       "apiKey r = Some key" "truthy (apiKey r)"
       "interpolates key" "interpolates msg" "fetch key msg = FetchResponse g" "ok g"
       "gemini_json g = None \<or> gemini_json g = Some JNull" for v r msg key g
    using that by (auto simp: serve_body [OF that(1-3)])
  have g: "serve fetch req = reply (aiResponse d)"
    if "req_method req \<noteq> ''OPTIONS''" "req_json req = Some v" "destructure v = Some r"
       "message r = Some msg" "truthy (message r)" "truthy (user_id r)"
       "apiKey r = Some key" "truthy (apiKey r)"
       "interpolates key" "interpolates msg" "fetch key msg = FetchResponse g" "ok g"
       "gemini_json g = Some d" "d \<noteq> JNull" for v r msg key g d
    using that by (cases d) (simp_all add: serve_body [OF that(1-3)])
  show ?thesis
    apply (intro conjI allI impI)
    subgoal by (rule pre)
    subgoal by (rule bad)
    subgoal by (rule serve_missing_iff) blast+
    subgoal by (rule b) blast+
    subgoal by (rule ni) blast+
    subgoal by (rule c) blast+
    subgoal by (rule d) blast+
    subgoal for v r msg key g by (rule e [of v r msg key g]) blast+
    subgoal by (rule f) blast+
    subgoal for v r msg key g d by (rule g [of v r msg key g d]) blast+
    subgoal by (rule fb1)
    subgoal by (rule fb2)
    done
qed

theorem serve_paths_witness:
  "serve (endpoint_answering \<lparr>gemini_status = 503, gemini_text = Some ''busy'', gemini_json = None\<rparr>)
     \<lparr>req_method = ''POST'',
      req_json = Some (JObj [(''message'', JStr ''temperature check''), (''user_id'', JStr ''u1''),
                             (''apiKey'', JStr ''k1'')])\<rparr>
     = reply (JStr temperature_response)
   \<and> serve (endpoint_answering \<lparr>gemini_status = 503, gemini_text = None, gemini_json = None\<rparr>)
     \<lparr>req_method = ''POST'',
      req_json = Some (JObj [(''message'', JStr ''temperature check''), (''user_id'', JStr ''u1''),
                             (''apiKey'', JStr ''k1'')])\<rparr>
     = catch_response
   \<and> serve endpoint_unreachable
     \<lparr>req_method = ''POST'',
      req_json = Some (JObj [(''message'', JStr ''temperature check''), (''user_id'', JStr ''u1''),
                             (''apiKey'', JStr ''k1'')])\<rparr>
     = catch_response
   \<and> serve endpoint_unreachable
     \<lparr>req_method = ''POST'',
      req_json = Some (JObj [(''message'', JStr ''temperature check'')])\<rparr>
     = missing_fields_response
   \<and> serve endpoint_unreachable
     \<lparr>req_method = ''POST'',
      req_json = Some (JObj [(''message'', JNum 5), (''user_id'', JStr ''u1'')])\<rparr>
     = catch_response
   \<and> serve endpoint_unreachable
     \<lparr>req_method = ''POST'',
      req_json = Some (JObj [(''message'', JNum 0), (''user_id'', JStr ''u1'')])\<rparr>
     = missing_fields_response
   \<and> serve endpoint_unreachable
     \<lparr>req_method = ''POST'',
      req_json = Some (JObj [(''message'', JStr ''temperature check''), (''user_id'', JStr ''u1''),
                             (''apiKey'', JObj [(''toString'', JNum 1)])])\<rparr>
     = catch_response
   \<and> serve endpoint_unreachable \<lparr>req_method = ''OPTIONS'', req_json = None\<rparr> = preflight_response
   \<and> serve endpoint_unreachable \<lparr>req_method = ''POST'', req_json = Some JNull\<rparr> = catch_response"
proof -
  let ?full = "JObj [(''message'', JStr ''temperature check''), (''user_id'', JStr ''u1''),
                     (''apiKey'', JStr ''k1'')]"
  let ?busy = "endpoint_answering \<lparr>gemini_status = 503, gemini_text = Some ''busy'', gemini_json = None\<rparr>"
  let ?cut = "endpoint_answering \<lparr>gemini_status = 503, gemini_text = None, gemini_json = None\<rparr>"
  have 1: "serve ?busy \<lparr>req_method = ''POST'', req_json = Some ?full\<rparr> = reply (JStr temperature_response)"
    using serve_paths [of "\<lparr>req_method = ''POST'', req_json = Some ?full\<rparr>" ?busy]
    by (simp add: destructure_def opt_prop_def truthy_def ok_def fallbackResponse_def
        endpoint_answering_def classify_examples)
  have 2: "serve ?cut \<lparr>req_method = ''POST'', req_json = Some ?full\<rparr> = catch_response"
    using serve_paths [of "\<lparr>req_method = ''POST'', req_json = Some ?full\<rparr>" ?cut]
    by (simp add: destructure_def opt_prop_def truthy_def ok_def fallbackResponse_def
        endpoint_answering_def)
  have 3: "serve endpoint_unreachable \<lparr>req_method = ''POST'', req_json = Some ?full\<rparr> = catch_response"
    using serve_paths [of "\<lparr>req_method = ''POST'', req_json = Some ?full\<rparr>" endpoint_unreachable]
    by (simp add: destructure_def opt_prop_def truthy_def endpoint_unreachable_def)
  have 4: "serve endpoint_unreachable
        \<lparr>req_method = ''POST'', req_json = Some (JObj [(''message'', JStr ''temperature check'')])\<rparr>
        = missing_fields_response"
    using serve_paths [of "\<lparr>req_method = ''POST'',
        req_json = Some (JObj [(''message'', JStr ''temperature check'')])\<rparr>" endpoint_unreachable]
    by (simp add: destructure_def opt_prop_def truthy_def)
  have 5: "serve endpoint_unreachable
        \<lparr>req_method = ''POST'', req_json = Some (JObj [(''message'', JNum 5), (''user_id'', JStr ''u1'')])\<rparr>
        = catch_response"
    using serve_paths [of "\<lparr>req_method = ''POST'',
        req_json = Some (JObj [(''message'', JNum 5), (''user_id'', JStr ''u1'')])\<rparr>" endpoint_unreachable]
    by (simp add: destructure_def opt_prop_def truthy_def fallbackResponse_def)
  have 6: "serve endpoint_unreachable
        \<lparr>req_method = ''POST'', req_json = Some (JObj [(''message'', JNum 0), (''user_id'', JStr ''u1'')])\<rparr>
        = missing_fields_response"
    using serve_paths [of "\<lparr>req_method = ''POST'',
        req_json = Some (JObj [(''message'', JNum 0), (''user_id'', JStr ''u1'')])\<rparr>" endpoint_unreachable]
    by (simp add: destructure_def opt_prop_def truthy_def)
  have 9: "serve endpoint_unreachable
        \<lparr>req_method = ''POST'',
         req_json = Some (JObj [(''message'', JStr ''temperature check''), (''user_id'', JStr ''u1''),
                                (''apiKey'', JObj [(''toString'', JNum 1)])])\<rparr>
        = catch_response"
    using serve_paths [of "\<lparr>req_method = ''POST'',
         req_json = Some (JObj [(''message'', JStr ''temperature check''), (''user_id'', JStr ''u1''),
                                (''apiKey'', JObj [(''toString'', JNum 1)])])\<rparr>" endpoint_unreachable]
    by (simp add: destructure_def opt_prop_def truthy_def)
  have 7: "serve endpoint_unreachable \<lparr>req_method = ''OPTIONS'', req_json = None\<rparr> = preflight_response"
    using serve_paths [of "\<lparr>req_method = ''OPTIONS'', req_json = None\<rparr>" endpoint_unreachable]
    by simp
  have 8: "serve endpoint_unreachable \<lparr>req_method = ''POST'', req_json = Some JNull\<rparr> = catch_response"
    using serve_paths [of "\<lparr>req_method = ''POST'', req_json = Some JNull\<rparr>" endpoint_unreachable]
    by simp
  show ?thesis using 1 2 3 4 5 6 7 8 9 by simp
qed

text \<open>
  Claim C9, as stated, fails: when the endpoint answers with status 503 and the body of
  the answer cannot be read, the handler answers from the \<open>catch\<close> branch with status
  500, while the same request without a key gets the temperature reply.
\<close>

theorem serve_not_ok_unreadable_counterexample:
  "serve (endpoint_answering \<lparr>gemini_status = 503, gemini_text = None, gemini_json = None\<rparr>)
     \<lparr>req_method = ''POST'',
      req_json = Some (JObj [(''message'', JStr ''temperature check''), (''user_id'', JStr ''u1''),
                             (''apiKey'', JStr ''k1'')])\<rparr>
     = catch_response
   \<and> serve (endpoint_answering \<lparr>gemini_status = 503, gemini_text = None, gemini_json = None\<rparr>)
     \<lparr>req_method = ''POST'',
      req_json = Some (JObj [(''message'', JStr ''temperature check''), (''user_id'', JStr ''u1'')])\<rparr>
     = reply (JStr temperature_response)
   \<and> catch_response \<noteq> reply (JStr temperature_response)"
  by (simp add: handler_defs classify_examples reply_def catch_response_def)

text \<open>
  Claim C9, amended. Whatever the message, the user, the key (a string) and the method
  of the request: when the endpoint answers the call with a status outside 200..299 and
  the body of that answer can be read, the handler's answer is its answer to the same
  request without a key. For the message \<open>temperature check\<close>, of a request with a user that is not a
  preflight, that answer is the temperature reply.
\<close>

theorem serve_not_ok_as_without_key:
  assumes "fetch (JStr key) msg = FetchResponse g" and "\<not> ok g" and "gemini_text g = Some errorText"
  shows "serve fetch
           \<lparr>req_method = mt,
            req_json = Some (JObj [(''message'', msg), (''user_id'', u), (''apiKey'', JStr key)])\<rparr>
       = serve fetch'
           \<lparr>req_method = mt, req_json = Some (JObj [(''message'', msg), (''user_id'', u)])\<rparr>
     \<and> (msg = JStr ''temperature check'' \<and> mt \<noteq> ''OPTIONS'' \<and> truthy (Some u) \<longrightarrow>
        serve fetch
           \<lparr>req_method = mt,
            req_json = Some (JObj [(''message'', msg), (''user_id'', u), (''apiKey'', JStr key)])\<rparr>
          = reply (JStr temperature_response))"
proof -
  have t: "truthy (Some (JStr ''temperature check''))" by (simp add: truthy_def)
  have n: "\<not> truthy None" by (simp add: truthy_def)
  have fb: "fallbackResponse (JStr s) = Some (generateFallbackResponse s)" for s
    by (simp add: fallbackResponse_def)
  have ni: "fallbackResponse msg = None" if "\<not> interpolates msg"
    using that by (cases msg) (simp_all add: fallbackResponse_def)
  show ?thesis
    using assms classify_examples(3) t n fb ni
    by (auto simp: serve_def destructure_def opt_prop_def)
qed

theorem serve_not_ok_as_without_key_witness:
  "serve (endpoint_answering \<lparr>gemini_status = 503, gemini_text = Some ''busy'', gemini_json = None\<rparr>)
     \<lparr>req_method = ''POST'',
      req_json = Some (JObj [(''message'', JStr ''temperature check''), (''user_id'', JStr ''u1''),
                             (''apiKey'', JStr ''k1'')])\<rparr>
   = reply (JStr temperature_response)
   \<and> serve endpoint_unreachable
     \<lparr>req_method = ''POST'',
      req_json = Some (JObj [(''message'', JStr ''temperature check''), (''user_id'', JStr ''u1'')])\<rparr>
   = reply (JStr temperature_response)"
  using serve_not_ok_as_without_key
    [of "endpoint_answering \<lparr>gemini_status = 503, gemini_text = Some ''busy'', gemini_json = None\<rparr>"
      "''k1''" "JStr ''temperature check''"
      "\<lparr>gemini_status = 503, gemini_text = Some ''busy'', gemini_json = None\<rparr>" "''busy''"
      "''POST''" "JStr ''u1''" endpoint_unreachable]
  by (auto simp: ok_def truthy_def endpoint_answering_def)

section \<open>The filter of the records view\<close>

lemma filter_step:
  "(if c then filter P (filter Q xs) else filter Q xs) = filter (\<lambda>x. Q x \<and> (\<not> c \<or> P x)) xs"
  by simp

lemma applyFilters_matches:
  "applyFilters newDate records searchTerm filters =
   filter (matches newDate searchTerm filters) records"
proof -
  have "applyFilters newDate records searchTerm filters =
        applyFilters newDate (filter (\<lambda>_. True) records) searchTerm filters"
    by simp
  also have "\<dots> = filter (matches newDate searchTerm filters) records"
    unfolding applyFilters_def Let_def filter_step matches_def
    by (rule filter_cong) auto
  finally show ?thesis .
qed

lemma count_list_filter_le: "count_list (filter P xs) x \<le> count_list xs x"
  by (induction xs) auto

lemma Date_iso_examples:
  "Date_iso tz ''2024-03-05T23:59:59'' = Some (1709683199000 - tz * 60000)"
  "Date_iso tz ''2024-03-05T23:59:00'' = Some (1709683140000 - tz * 60000)"
  "Date_iso tz ''2024-03-06T00:00:01'' = Some (1709683201000 - tz * 60000)"
  "Date_iso tz ''not-a-date'' = None"
  "Date_iso tz ''not-a-dateT23:59:59'' = None"
  by (simp_all add: Date_iso_def parse_date_def parse_clock_def num_def digit_of_def
      valid_date_def valid_clock_def day_ms_def clock_ms_def days_from_civil_def)

text \<open>
  Claim C7. The result of the filter is a subsequence of the records it is given: the
  records that remain are in their original order, and no record occurs in the result
  more often than in the input.
\<close>

theorem applyFilters_subseq:
  "subseq (applyFilters newDate records searchTerm filters) records
   \<and> (\<forall>r. count_list (applyFilters newDate records searchTerm filters) r \<le> count_list records r)"
  by (simp add: applyFilters_matches count_list_filter_le)

text \<open>
  Claim C8. With an empty search term and every criterion empty the filter returns the
  records unchanged.
\<close>

theorem applyFilters_empty_criteria:
  "applyFilters newDate records []
     \<lparr>flt_field = [], flt_location = [], dateFrom = [], dateTo = []\<rparr> = records"
  by (simp add: applyFilters_def)

text \<open>
  Claim C2, as stated, fails: with \<open>not-a-date\<close> as the start date the run does not
  end in an error. It ends with the empty result, although the one record given passes
  every other criterion.
\<close>

theorem applyFilters_malformed_date_counterexample:
  "applyFilters_outcome (Date_iso 0)
     [\<lparr>rec_id = ''1'', rec_field = ''Temp'', rec_value = ''20'', rec_location = ''North'',
       rec_timestamp = ''2024-03-05T23:59:00'', rec_user_id = ''u''\<rparr>] []
     \<lparr>flt_field = [], flt_location = [], dateFrom = ''not-a-date'', dateTo = []\<rparr> = Inr []
   \<and> applyFilters_outcome (Date_iso 0)
     [\<lparr>rec_id = ''1'', rec_field = ''Temp'', rec_value = ''20'', rec_location = ''North'',
       rec_timestamp = ''2024-03-05T23:59:00'', rec_user_id = ''u''\<rparr>] []
     \<lparr>flt_field = [], flt_location = [], dateFrom = ''not-a-date'', dateTo = []\<rparr>
     \<noteq> Inl InvalidFilterError
   \<and> Date_iso 0 ''not-a-date'' = None"
  by (simp add: applyFilters_outcome_def applyFilters_def Date_iso_examples date_ge_def)

text \<open>
  Claim C2, amended. When the start date is set and is not a date for the host's
  constructor, or the end date is set and, with \<open>T23:59:59\<close> appended, is not one, the
  filter does not fail: it returns the empty sequence, whatever the records and the
  other criteria.
\<close>

theorem applyFilters_malformed_date_empty:
  assumes "(dateFrom filters \<noteq> [] \<and> newDate (dateFrom filters) = None) \<or>
           (dateTo filters \<noteq> [] \<and> newDate (dateTo filters @ ''T23:59:59'') = None)"
  shows "applyFilters_outcome newDate records searchTerm filters = Inr []"
proof -
  have "\<not> matches newDate searchTerm filters r" for r
    using assms by (auto simp: matches_def date_ge_def date_le_def split: option.splits)
  then show ?thesis
    by (simp add: applyFilters_outcome_def applyFilters_matches)
qed

theorem applyFilters_malformed_date_empty_witness:
  "applyFilters_outcome (Date_iso 0)
     [\<lparr>rec_id = ''1'', rec_field = ''Temp'', rec_value = ''20'', rec_location = ''North'',
       rec_timestamp = ''2024-03-05T23:59:00'', rec_user_id = ''u''\<rparr>] ''temp''
     \<lparr>flt_field = [], flt_location = [], dateFrom = ''not-a-date'', dateTo = []\<rparr> = Inr []
   \<and> applyFilters_outcome (Date_iso 0)
     [\<lparr>rec_id = ''1'', rec_field = ''Temp'', rec_value = ''20'', rec_location = ''North'',
       rec_timestamp = ''2024-03-05T23:59:00'', rec_user_id = ''u''\<rparr>] ''temp''
     \<lparr>flt_field = [], flt_location = [], dateFrom = [], dateTo = ''not-a-date''\<rparr> = Inr []"
proof -
  let ?rs = "[\<lparr>rec_id = ''1'', rec_field = ''Temp'', rec_value = ''20'', rec_location = ''North'',
       rec_timestamp = ''2024-03-05T23:59:00'', rec_user_id = ''u''\<rparr>]"
  have "applyFilters_outcome (Date_iso 0) ?rs ''temp''
          \<lparr>flt_field = [], flt_location = [], dateFrom = ''not-a-date'', dateTo = []\<rparr> = Inr []"
    using applyFilters_malformed_date_empty
      [of "\<lparr>flt_field = [], flt_location = [], dateFrom = ''not-a-date'', dateTo = []\<rparr>"
          "Date_iso 0" ?rs "''temp''"]
    by (simp add: Date_iso_examples)
  moreover have "applyFilters_outcome (Date_iso 0) ?rs ''temp''
          \<lparr>flt_field = [], flt_location = [], dateFrom = [], dateTo = ''not-a-date''\<rparr> = Inr []"
    using applyFilters_malformed_date_empty
      [of "\<lparr>flt_field = [], flt_location = [], dateFrom = [], dateTo = ''not-a-date''\<rparr>"
          "Date_iso 0" ?rs "''temp''"]
    by (simp add: Date_iso_examples)
  ultimately show ?thesis by simp
qed

text \<open>
  Claim C5. An end date that is set keeps, of the records that pass the other criteria,
  exactly those whose time is not after 23:59:59 of that day. With the end date
  \<open>2024-03-05\<close> as the only criterion, and in every time zone of the host, the record
  of \<open>2024-03-05T23:59:00\<close> is kept and the record of \<open>2024-03-06T00:00:01\<close> is dropped.
\<close>

theorem applyFilters_dateTo_end_of_day:
  "(d \<noteq> [] \<longrightarrow>
      applyFilters newDate records searchTerm (filters\<lparr>dateTo := d\<rparr>) =
      filter (\<lambda>record. date_le (newDate (rec_timestamp record)) (newDate (d @ ''T23:59:59'')))
        (applyFilters newDate records searchTerm (filters\<lparr>dateTo := []\<rparr>)))
   \<and> applyFilters (Date_iso tz)
       [\<lparr>rec_id = i1, rec_field = f1, rec_value = v1, rec_location = l1,
         rec_timestamp = ''2024-03-05T23:59:00'', rec_user_id = u1\<rparr>,
        \<lparr>rec_id = i2, rec_field = f2, rec_value = v2, rec_location = l2,
         rec_timestamp = ''2024-03-06T00:00:01'', rec_user_id = u2\<rparr>] []
       \<lparr>flt_field = [], flt_location = [], dateFrom = [], dateTo = ''2024-03-05''\<rparr>
     = [\<lparr>rec_id = i1, rec_field = f1, rec_value = v1, rec_location = l1,
         rec_timestamp = ''2024-03-05T23:59:00'', rec_user_id = u1\<rparr>]"
proof -
  have "applyFilters newDate records searchTerm (filters\<lparr>dateTo := d\<rparr>) =
      filter (\<lambda>record. date_le (newDate (rec_timestamp record)) (newDate (d @ ''T23:59:59'')))
        (applyFilters newDate records searchTerm (filters\<lparr>dateTo := []\<rparr>))" if "d \<noteq> []"
    using that by (simp add: applyFilters_def Let_def)
  moreover have "applyFilters (Date_iso tz)
       [\<lparr>rec_id = i1, rec_field = f1, rec_value = v1, rec_location = l1,
         rec_timestamp = ''2024-03-05T23:59:00'', rec_user_id = u1\<rparr>,
        \<lparr>rec_id = i2, rec_field = f2, rec_value = v2, rec_location = l2,
         rec_timestamp = ''2024-03-06T00:00:01'', rec_user_id = u2\<rparr>] []
       \<lparr>flt_field = [], flt_location = [], dateFrom = [], dateTo = ''2024-03-05''\<rparr>
     = [\<lparr>rec_id = i1, rec_field = f1, rec_value = v1, rec_location = l1,
         rec_timestamp = ''2024-03-05T23:59:00'', rec_user_id = u1\<rparr>]"
    by (simp add: applyFilters_def Date_iso_examples date_le_def)
  ultimately show ?thesis by blast
qed

theorem applyFilters_dateTo_end_of_day_witness:
  "applyFilters (Date_iso 330)
     [\<lparr>rec_id = ''1'', rec_field = ''Temp'', rec_value = ''20'', rec_location = ''North'',
       rec_timestamp = ''2024-03-05T23:59:00'', rec_user_id = ''u''\<rparr>,
      \<lparr>rec_id = ''2'', rec_field = ''Temp'', rec_value = ''21'', rec_location = ''North'',
       rec_timestamp = ''2024-03-06T00:00:01'', rec_user_id = ''u''\<rparr>] ''temp''
     \<lparr>flt_field = [], flt_location = [], dateFrom = [], dateTo = ''2024-03-05''\<rparr>
   = [\<lparr>rec_id = ''1'', rec_field = ''Temp'', rec_value = ''20'', rec_location = ''North'',
       rec_timestamp = ''2024-03-05T23:59:00'', rec_user_id = ''u''\<rparr>]"
proof -
  let ?rs = "[\<lparr>rec_id = ''1'', rec_field = ''Temp'', rec_value = ''20'', rec_location = ''North'',
       rec_timestamp = ''2024-03-05T23:59:00'', rec_user_id = ''u''\<rparr>,
      \<lparr>rec_id = ''2'', rec_field = ''Temp'', rec_value = ''21'', rec_location = ''North'',
       rec_timestamp = ''2024-03-06T00:00:01'', rec_user_id = ''u''\<rparr>]"
  let ?c = "\<lparr>flt_field = [], flt_location = [], dateFrom = [], dateTo = []\<rparr>"
  have "applyFilters (Date_iso 330) ?rs ''temp'' ?c = ?rs"
    by (simp add: applyFilters_def toLowerCase_def lower_char_def)
  then show ?thesis
    using applyFilters_dateTo_end_of_day [of "''2024-03-05''" "Date_iso 330" ?rs "''temp''" ?c]
    by (simp add: Date_iso_examples date_le_def)
qed

section \<open>The CSV export\<close>

lemma join_Cons: "join sep (x # xs) = x @ concat (map (\<lambda>y. sep @ y) xs)"
  by (induction xs arbitrary: x) auto

lemma csvContent_explicit:
  "exportFiltered_csvContent records =
     ''ID,Field,Value,Location,Timestamp'' @
     concat (map (\<lambda>r. CHR 0x0A # rec_id r @ '','' @ rec_field r @ '','' @ rec_value r @ '','' @
                        rec_location r @ '','' @ rec_timestamp r) records)"
  by (simp add: exportFiltered_csvContent_def csvHeaders_def join_Cons comp_def)

lemma takeWhile_lines: "takeWhile (\<lambda>c. c \<noteq> n) (concat (map (\<lambda>r. n # g r) rs)) = []"
  by (cases rs) auto

text \<open>
  Claim C6. The CSV text is the header \<open>ID,Field,Value,Location,Timestamp\<close> followed,
  for each record in the order given, by a line feed and the five attributes with a
  comma between them, each attribute copied as it is; the text up to the first line
  feed is the header; the export of the dashboard builds the same text as the export of
  the records view; a comma inside an attribute appears unquoted. The text is a function
  of the records alone.
\<close>

theorem csvContent_format:
  "exportFiltered_csvContent records =
     ''ID,Field,Value,Location,Timestamp'' @
     concat (map (\<lambda>r. CHR 0x0A # rec_id r @ '','' @ rec_field r @ '','' @ rec_value r @ '','' @
                        rec_location r @ '','' @ rec_timestamp r) records)
   \<and> takeWhile (\<lambda>c. c \<noteq> CHR 0x0A) (exportFiltered_csvContent records)
       = ''ID,Field,Value,Location,Timestamp''
   \<and> exportData_csvContent (Some records) = Some (exportFiltered_csvContent records)
   \<and> exportFiltered_csvContent
        [\<lparr>rec_id = ''1'', rec_field = ''Note'', rec_value = ''a,b'', rec_location = ''North, plot 2'',
          rec_timestamp = ''2024-03-05T23:59:00'', rec_user_id = ''u''\<rparr>]
      = ''ID,Field,Value,Location,Timestamp'' @ [CHR 0x0A] @
        ''1,Note,a,b,North, plot 2,2024-03-05T23:59:00''"
proof -
  have "takeWhile (\<lambda>c. c \<noteq> CHR 0x0A) (exportFiltered_csvContent records)
        = ''ID,Field,Value,Location,Timestamp''"
    unfolding csvContent_explicit by (simp add: takeWhile_lines)
  moreover have "exportData_csvContent (Some records) = Some (exportFiltered_csvContent records)"
    by (simp add: exportFiltered_csvContent_def exportData_csvContent_def csvHeaders_def)
  moreover have "exportFiltered_csvContent
        [\<lparr>rec_id = ''1'', rec_field = ''Note'', rec_value = ''a,b'', rec_location = ''North, plot 2'',
          rec_timestamp = ''2024-03-05T23:59:00'', rec_user_id = ''u''\<rparr>]
      = ''ID,Field,Value,Location,Timestamp'' @ [CHR 0x0A] @
        ''1,Note,a,b,North, plot 2,2024-03-05T23:59:00''"
    by (simp add: exportFiltered_csvContent_def csvHeaders_def)
  ultimately show ?thesis using csvContent_explicit by blast
qed

section \<open>The dashboard's grouping\<close>

lemma first_seen_snoc:
  "first_seen (xs @ [x]) = (if x \<in> set xs then first_seen xs else first_seen xs @ [x])"
  by (simp add: first_seen_def)

lemma set_first_seen: "set (first_seen xs) = set xs"
  by (simp add: first_seen_def)

lemma find_snoc:
  "find P (xs @ [x]) =
   (case find P xs of None \<Rightarrow> (if P x then Some x else None) | Some y \<Rightarrow> Some y)"
  by (induction xs) auto

lemma find_None_all: "find P xs = None \<longleftrightarrow> (\<forall>x\<in>set xs. \<not> P x)"
  by (induction xs) auto

lemma group_of_snoc_other:
  "f \<noteq> rec_field r \<Longrightarrow> group_of (rs @ [r]) f = group_of rs f"
  by (simp add: group_of_def find_snoc split: option.splits)

lemma group_of_snoc_seen:
  "rec_field r \<in> rec_field ` set rs \<Longrightarrow>
   group_of (rs @ [r]) (rec_field r) =
   (group_of rs (rec_field r))\<lparr>fd_count := fd_count (group_of rs (rec_field r)) + 1\<rparr>"
  by (auto simp: group_of_def find_snoc find_None_all split: option.splits)

lemma group_of_snoc_new:
  assumes "\<forall>x\<in>set rs. rec_field x \<noteq> rec_field r"
  shows "group_of (rs @ [r]) (rec_field r) =
         \<lparr>fd_field = rec_field r, fd_count = 1, fd_value = rec_value r\<rparr>"
proof -
  have "filter (\<lambda>x. rec_field x = rec_field r) rs = []"
    using assms by (simp add: filter_empty_conv)
  moreover have "find (\<lambda>x. rec_field x = rec_field r) rs = None"
    using assms by (simp add: find_None_all)
  ultimately show ?thesis by (simp add: group_of_def find_snoc)
qed

lemma map_of_groups:
  "map_of (map (\<lambda>f. (f, g f)) fs) k = (if k \<in> set fs then Some (g k) else None)"
  by (induction fs) auto

text \<open>
  The accumulator after the \<open>reduce\<close>, when no field name is inherited: one property
  per field name, created in first-seen order, holding that field's group.
\<close>

lemma groupedData_groups:
  assumes "\<forall>r\<in>set rs. rec_field r \<notin> set Object_prototype_names"
  shows "foldl group_step [] rs = map (\<lambda>f. (f, group_of rs f)) (first_seen (map rec_field rs))"
  using assms
proof (induction rs rule: rev_induct)
  case Nil
  then show ?case by (simp add: first_seen_def)
next
  case (snoc r rs)
  let ?k = "rec_field r"
  let ?F = "first_seen (map rec_field rs)"
  have IH: "foldl group_step [] rs = map (\<lambda>f. (f, group_of rs f)) ?F"
    using snoc by simp
  have k: "?k \<notin> set Object_prototype_names" using snoc.prems by simp
  have setF: "set ?F = rec_field ` set rs" by (simp add: set_first_seen)
  show ?case
  proof (cases "?k \<in> set ?F")
    case True
    then have seen: "?k \<in> rec_field ` set rs" unfolding setF .
    have "foldl group_step [] (rs @ [r]) =
          map (\<lambda>p. if fst p = ?k then (fst p, (snd p)\<lparr>fd_count := fd_count (snd p) + 1\<rparr>) else p)
            (map (\<lambda>f. (f, group_of rs f)) ?F)"
      using True k by (simp add: IH group_step_def map_of_groups)
    also have "\<dots> = map (\<lambda>f. (f, group_of (rs @ [r]) f)) ?F"
      by (simp add: group_of_snoc_seen [OF seen] group_of_snoc_other)
    also have "\<dots> = map (\<lambda>f. (f, group_of (rs @ [r]) f)) (first_seen (map rec_field (rs @ [r])))"
      using seen by (simp add: first_seen_snoc)
    finally show ?thesis .
  next
    case False
    then have nf: "\<forall>x\<in>set rs. rec_field x \<noteq> ?k" by (metis imageI setF)
    have nk: "\<forall>f\<in>set ?F. f \<noteq> ?k" using False by blast
    have "foldl group_step [] (rs @ [r]) =
          map (\<lambda>p. if fst p = ?k then (fst p, (snd p)\<lparr>fd_count := fd_count (snd p) + 1\<rparr>) else p)
            (map (\<lambda>f. (f, group_of rs f)) ?F @
             [(?k, \<lparr>fd_field = ?k, fd_count = 0, fd_value = rec_value r\<rparr>)])"
      using False k by (simp add: IH group_step_def map_of_groups)
    also have "\<dots> = map (\<lambda>f. (f, group_of (rs @ [r]) f)) (?F @ [?k])"
      using nk by (simp add: group_of_snoc_new [OF nf] group_of_snoc_other)
    also have "\<dots> = map (\<lambda>f. (f, group_of (rs @ [r]) f)) (first_seen (map rec_field (rs @ [r])))"
      using False by (simp add: first_seen_snoc set_first_seen)
    finally show ?thesis .
  qed
qed

lemma Object_values_plain:
  assumes "\<forall>p\<in>set obj. \<not> is_index p"
  shows "Object_values obj = map snd obj"
proof -
  have "filter is_index obj = []" using assms by (simp add: filter_empty_conv)
  moreover have "filter (\<lambda>p. \<not> is_index p) obj = obj" using assms by (simp add: filter_id_conv)
  ultimately show ?thesis by (simp add: Object_values_def)
qed

lemmas grouping_defs =
  recentRecords_def groupedData_def group_step_def Object_prototype_names_def Object_values_def
  array_index_def num_def digit_of_def is_index_def index_key_def

text \<open>
  Claim C4, as stated, fails. A field name that is an array index is listed by
  \<open>Object.values\<close> before the other names, whatever the order in which the names were
  seen: after a record of \<open>Temp\<close> and an older one of \<open>7\<close> the group of \<open>7\<close> comes
  first. A record whose field name every object inherits, such as \<open>constructor\<close>,
  gets no group at all. And the source has no limit to vary: it cuts to five groups,
  so six fields give five groups where the limit 6 asks for six.
\<close>

theorem recentRecords_index_first_counterexample:
  "recentRecords (Some
     [\<lparr>rec_id = ''1'', rec_field = ''Temp'', rec_value = ''20'', rec_location = ''North'',
       rec_timestamp = ''2024-03-05T23:59:00'', rec_user_id = ''u''\<rparr>,
      \<lparr>rec_id = ''2'', rec_field = ''7'', rec_value = ''55'', rec_location = ''North'',
       rec_timestamp = ''2024-03-05T22:00:00'', rec_user_id = ''u''\<rparr>])
   = [\<lparr>fd_field = ''7'', fd_count = 1, fd_value = ''55''\<rparr>,
      \<lparr>fd_field = ''Temp'', fd_count = 1, fd_value = ''20''\<rparr>]
   \<and> aggregate
     [\<lparr>rec_id = ''1'', rec_field = ''Temp'', rec_value = ''20'', rec_location = ''North'',
       rec_timestamp = ''2024-03-05T23:59:00'', rec_user_id = ''u''\<rparr>,
      \<lparr>rec_id = ''2'', rec_field = ''7'', rec_value = ''55'', rec_location = ''North'',
       rec_timestamp = ''2024-03-05T22:00:00'', rec_user_id = ''u''\<rparr>] 5
   = [\<lparr>fd_field = ''Temp'', fd_count = 1, fd_value = ''20''\<rparr>,
      \<lparr>fd_field = ''7'', fd_count = 1, fd_value = ''55''\<rparr>]
   \<and> recentRecords (Some
     [\<lparr>rec_id = ''3'', rec_field = ''constructor'', rec_value = ''oak'', rec_location = ''North'',
       rec_timestamp = ''2024-03-05T21:00:00'', rec_user_id = ''u''\<rparr>])
   = []
   \<and> recentRecords (Some
     [\<lparr>rec_id = ''1'', rec_field = ''A'', rec_value = ''1'', rec_location = ''North'',
       rec_timestamp = ''2024-03-08'', rec_user_id = ''u''\<rparr>,
      \<lparr>rec_id = ''2'', rec_field = ''B'', rec_value = ''1'', rec_location = ''North'',
       rec_timestamp = ''2024-03-07'', rec_user_id = ''u''\<rparr>,
      \<lparr>rec_id = ''3'', rec_field = ''C'', rec_value = ''1'', rec_location = ''North'',
       rec_timestamp = ''2024-03-06'', rec_user_id = ''u''\<rparr>,
      \<lparr>rec_id = ''4'', rec_field = ''D'', rec_value = ''1'', rec_location = ''North'',
       rec_timestamp = ''2024-03-05'', rec_user_id = ''u''\<rparr>,
      \<lparr>rec_id = ''5'', rec_field = ''E'', rec_value = ''1'', rec_location = ''North'',
       rec_timestamp = ''2024-03-04'', rec_user_id = ''u''\<rparr>,
      \<lparr>rec_id = ''6'', rec_field = ''F'', rec_value = ''1'', rec_location = ''North'',
       rec_timestamp = ''2024-03-03'', rec_user_id = ''u''\<rparr>])
   = [\<lparr>fd_field = ''A'', fd_count = 1, fd_value = ''1''\<rparr>,
      \<lparr>fd_field = ''B'', fd_count = 1, fd_value = ''1''\<rparr>,
      \<lparr>fd_field = ''C'', fd_count = 1, fd_value = ''1''\<rparr>,
      \<lparr>fd_field = ''D'', fd_count = 1, fd_value = ''1''\<rparr>,
      \<lparr>fd_field = ''E'', fd_count = 1, fd_value = ''1''\<rparr>]
   \<and> aggregate
     [\<lparr>rec_id = ''1'', rec_field = ''A'', rec_value = ''1'', rec_location = ''North'',
       rec_timestamp = ''2024-03-08'', rec_user_id = ''u''\<rparr>,
      \<lparr>rec_id = ''2'', rec_field = ''B'', rec_value = ''1'', rec_location = ''North'',
       rec_timestamp = ''2024-03-07'', rec_user_id = ''u''\<rparr>,
      \<lparr>rec_id = ''3'', rec_field = ''C'', rec_value = ''1'', rec_location = ''North'',
       rec_timestamp = ''2024-03-06'', rec_user_id = ''u''\<rparr>,
      \<lparr>rec_id = ''4'', rec_field = ''D'', rec_value = ''1'', rec_location = ''North'',
       rec_timestamp = ''2024-03-05'', rec_user_id = ''u''\<rparr>,
      \<lparr>rec_id = ''5'', rec_field = ''E'', rec_value = ''1'', rec_location = ''North'',
       rec_timestamp = ''2024-03-04'', rec_user_id = ''u''\<rparr>,
      \<lparr>rec_id = ''6'', rec_field = ''F'', rec_value = ''1'', rec_location = ''North'',
       rec_timestamp = ''2024-03-03'', rec_user_id = ''u''\<rparr>] 6
   = [\<lparr>fd_field = ''A'', fd_count = 1, fd_value = ''1''\<rparr>,
      \<lparr>fd_field = ''B'', fd_count = 1, fd_value = ''1''\<rparr>,
      \<lparr>fd_field = ''C'', fd_count = 1, fd_value = ''1''\<rparr>,
      \<lparr>fd_field = ''D'', fd_count = 1, fd_value = ''1''\<rparr>,
      \<lparr>fd_field = ''E'', fd_count = 1, fd_value = ''1''\<rparr>,
      \<lparr>fd_field = ''F'', fd_count = 1, fd_value = ''1''\<rparr>]"
  by (simp add: grouping_defs aggregate_def first_seen_def group_of_def)

text \<open>
  Claim C4, amended. For every sequence of records whose field names are plain, the
  dashboard's groups are those of the specification with the limit 5, which is the
  bound the source fixes: one group per field name, in first-seen order, with the
  number of records of the field and the value of the first of them, cut to five
  groups. On the records \<open>Temp\<close> 20, \<open>Temp\<close> 21, \<open>Humidity\<close> 55 the groups are \<open>Temp\<close>
  with count 2 and value 20, then \<open>Humidity\<close> with count 1 and value 55.
\<close>

theorem recentRecords_aggregate:
  assumes "\<forall>r\<in>set rs. plain_name (rec_field r)"
  shows "recentRecords (Some rs) = aggregate rs 5
   \<and> recentRecords (Some
       [\<lparr>rec_id = i1, rec_field = ''Temp'', rec_value = ''20'', rec_location = l1,
         rec_timestamp = t1, rec_user_id = u1\<rparr>,
        \<lparr>rec_id = i2, rec_field = ''Temp'', rec_value = ''21'', rec_location = l2,
         rec_timestamp = t2, rec_user_id = u2\<rparr>,
        \<lparr>rec_id = i3, rec_field = ''Humidity'', rec_value = ''55'', rec_location = l3,
         rec_timestamp = t3, rec_user_id = u3\<rparr>])
     = [\<lparr>fd_field = ''Temp'', fd_count = 2, fd_value = ''20''\<rparr>,
        \<lparr>fd_field = ''Humidity'', fd_count = 1, fd_value = ''55''\<rparr>]"
proof -
  have "foldl group_step [] rs = map (\<lambda>f. (f, group_of rs f)) (first_seen (map rec_field rs))"
    using assms by (intro groupedData_groups) (simp add: plain_name_def)
  moreover have "\<forall>p\<in>set (map (\<lambda>f. (f, group_of rs f)) (first_seen (map rec_field rs))). \<not> is_index p"
    using assms by (auto simp: set_first_seen is_index_def plain_name_def)
  ultimately have "recentRecords (Some rs) = aggregate rs 5"
    by (simp add: recentRecords_def groupedData_def Object_values_plain aggregate_def comp_def)
  moreover have "recentRecords (Some
       [\<lparr>rec_id = i1, rec_field = ''Temp'', rec_value = ''20'', rec_location = l1,
         rec_timestamp = t1, rec_user_id = u1\<rparr>,
        \<lparr>rec_id = i2, rec_field = ''Temp'', rec_value = ''21'', rec_location = l2,
         rec_timestamp = t2, rec_user_id = u2\<rparr>,
        \<lparr>rec_id = i3, rec_field = ''Humidity'', rec_value = ''55'', rec_location = l3,
         rec_timestamp = t3, rec_user_id = u3\<rparr>])
     = [\<lparr>fd_field = ''Temp'', fd_count = 2, fd_value = ''20''\<rparr>,
        \<lparr>fd_field = ''Humidity'', fd_count = 1, fd_value = ''55''\<rparr>]"
    by (simp add: grouping_defs)
  ultimately show ?thesis by simp
qed

theorem recentRecords_aggregate_witness:
  "recentRecords (Some
     [\<lparr>rec_id = ''1'', rec_field = ''Temp'', rec_value = ''20'', rec_location = ''North'',
       rec_timestamp = ''2024-03-05T23:59:00'', rec_user_id = ''u''\<rparr>,
      \<lparr>rec_id = ''2'', rec_field = ''Temp'', rec_value = ''21'', rec_location = ''North'',
       rec_timestamp = ''2024-03-05T22:00:00'', rec_user_id = ''u''\<rparr>,
      \<lparr>rec_id = ''3'', rec_field = ''Humidity'', rec_value = ''55'', rec_location = ''South'',
       rec_timestamp = ''2024-03-05T21:00:00'', rec_user_id = ''u''\<rparr>])
   = aggregate
     [\<lparr>rec_id = ''1'', rec_field = ''Temp'', rec_value = ''20'', rec_location = ''North'',
       rec_timestamp = ''2024-03-05T23:59:00'', rec_user_id = ''u''\<rparr>,
      \<lparr>rec_id = ''2'', rec_field = ''Temp'', rec_value = ''21'', rec_location = ''North'',
       rec_timestamp = ''2024-03-05T22:00:00'', rec_user_id = ''u''\<rparr>,
      \<lparr>rec_id = ''3'', rec_field = ''Humidity'', rec_value = ''55'', rec_location = ''South'',
       rec_timestamp = ''2024-03-05T21:00:00'', rec_user_id = ''u''\<rparr>] 5
   \<and> aggregate
     [\<lparr>rec_id = ''1'', rec_field = ''Temp'', rec_value = ''20'', rec_location = ''North'',
       rec_timestamp = ''2024-03-05T23:59:00'', rec_user_id = ''u''\<rparr>,
      \<lparr>rec_id = ''2'', rec_field = ''Temp'', rec_value = ''21'', rec_location = ''North'',
       rec_timestamp = ''2024-03-05T22:00:00'', rec_user_id = ''u''\<rparr>,
      \<lparr>rec_id = ''3'', rec_field = ''Humidity'', rec_value = ''55'', rec_location = ''South'',
       rec_timestamp = ''2024-03-05T21:00:00'', rec_user_id = ''u''\<rparr>] 5
   = [\<lparr>fd_field = ''Temp'', fd_count = 2, fd_value = ''20''\<rparr>,
      \<lparr>fd_field = ''Humidity'', fd_count = 1, fd_value = ''55''\<rparr>]"
proof -
  let ?rs = "[\<lparr>rec_id = ''1'', rec_field = ''Temp'', rec_value = ''20'', rec_location = ''North'',
       rec_timestamp = ''2024-03-05T23:59:00'', rec_user_id = ''u''\<rparr>,
      \<lparr>rec_id = ''2'', rec_field = ''Temp'', rec_value = ''21'', rec_location = ''North'',
       rec_timestamp = ''2024-03-05T22:00:00'', rec_user_id = ''u''\<rparr>,
      \<lparr>rec_id = ''3'', rec_field = ''Humidity'', rec_value = ''55'', rec_location = ''South'',
       rec_timestamp = ''2024-03-05T21:00:00'', rec_user_id = ''u''\<rparr>]"
  have plain: "\<forall>r\<in>set ?rs. plain_name (rec_field r)"
    by (simp add: plain_name_def Object_prototype_names_def array_index_def num_def digit_of_def)
  have "recentRecords (Some ?rs) = aggregate ?rs 5"
    by (rule conjunct1 [OF recentRecords_aggregate [OF plain]])
  moreover have "aggregate ?rs 5 =
      [\<lparr>fd_field = ''Temp'', fd_count = 2, fd_value = ''20''\<rparr>,
       \<lparr>fd_field = ''Humidity'', fd_count = 1, fd_value = ''55''\<rparr>]"
    by (simp add: aggregate_def first_seen_def group_of_def)
  ultimately show ?thesis by simp
qed

end
